theory Spec2Isabelle
  imports Main "HOL-Library.Word"
begin

unbundle bit_operations_syntax

section \<open>Machine types\<close>

type_synonym u8 = "8 word"
type_synonym u32 = "32 word"
type_synonym u64 = "64 word"

section \<open>Constants of the headers\<close>

text \<open>
  Modelled from the spec: the macros below are used by svm.c but declared in headers
  (asm/processor.h, asm/msr.h, asm/hvm/support.h, asm/x86_emulate.h, xen/errno.h) that are
  not part of the file. The spec names the bits (paging-enable, write-protect,
  task-switched, PAE, virtualization-enable, long-mode-enable, long-mode-active, trap
  flag, resume flag) and the vectors (debug, double fault, general protection, page
  fault); the values are the architectural ones of x86-64 and AMD SVM.
\<close>

definition X86_CR0_TS :: u64 where "X86_CR0_TS = 0x00000008"
definition X86_CR0_ET :: u64 where "X86_CR0_ET = 0x00000010"
definition X86_CR0_WP :: u64 where "X86_CR0_WP = 0x00010000"
definition X86_CR0_PG :: u64 where "X86_CR0_PG = 0x80000000"
definition X86_CR4_PAE :: u64 where "X86_CR4_PAE = 0x0020"
definition X86_CR4_VMXE :: u64 where "X86_CR4_VMXE = 0x2000"

definition EFER_LME :: u64 where "EFER_LME = 0x100"
definition EFER_LMA :: u64 where "EFER_LMA = 0x400"
definition EFER_SVME :: u64 where "EFER_SVME = 0x1000"

definition X86_EFLAGS_TF :: u64 where "X86_EFLAGS_TF = 0x00000100"
definition X86_EFLAGS_RF :: u64 where "X86_EFLAGS_RF = 0x00010000"

definition TRAP_debug :: u32 where "TRAP_debug = 1"
definition TRAP_no_device :: nat where "TRAP_no_device = 7"
definition TRAP_double_fault :: u32 where "TRAP_double_fault = 8"
definition TRAP_gp_fault :: u32 where "TRAP_gp_fault = 13"
definition TRAP_page_fault :: u32 where "TRAP_page_fault = 14"

definition X86_EVENTTYPE_HW_EXCEPTION :: "3 word" where "X86_EVENTTYPE_HW_EXCEPTION = 3"

text \<open>
  The error-code argument of an injection is a C int; it is kept as its 32-bit pattern,
  so that -1 is 0xffffffff. HVM_DELIVER_NO_ERROR_CODE is -1 in asm/hvm/support.h. That it
  is not 0 also shows in svm.c: the MSR intercepts inject a general-protection fault,
  which always carries an error code, with the argument 0.
\<close>

definition HVM_DELIVER_NO_ERROR_CODE :: u32 where "HVM_DELIVER_NO_ERROR_CODE = - 1"

definition X86EMUL_OKAY :: int where "X86EMUL_OKAY = 0"
definition X86EMUL_EXCEPTION :: int where "X86EMUL_EXCEPTION = 2"

definition EINVAL :: int where "EINVAL = 22"

definition PAGE_SHIFT :: nat where "PAGE_SHIFT = 12"

definition MSR_IA32_TSC :: u32 where "MSR_IA32_TSC = 0x10"
definition MSR_IA32_APICBASE :: u32 where "MSR_IA32_APICBASE = 0x1b"
definition MSR_IA32_EBC_FREQUENCY_ID :: u32 where "MSR_IA32_EBC_FREQUENCY_ID = 0x2c"
definition MSR_IA32_MCG_CAP :: u32 where "MSR_IA32_MCG_CAP = 0x179"
definition MSR_IA32_MCG_STATUS :: u32 where "MSR_IA32_MCG_STATUS = 0x17a"
definition MSR_IA32_DEBUGCTLMSR :: u32 where "MSR_IA32_DEBUGCTLMSR = 0x1d9"
definition MSR_IA32_LASTBRANCHFROMIP :: u32 where "MSR_IA32_LASTBRANCHFROMIP = 0x1db"
definition MSR_IA32_LASTBRANCHTOIP :: u32 where "MSR_IA32_LASTBRANCHTOIP = 0x1dc"
definition MSR_IA32_LASTINTFROMIP :: u32 where "MSR_IA32_LASTINTFROMIP = 0x1dd"
definition MSR_IA32_LASTINTTOIP :: u32 where "MSR_IA32_LASTINTTOIP = 0x1de"
definition MSR_IA32_MC0_STATUS :: u32 where "MSR_IA32_MC0_STATUS = 0x401"
definition MSR_IA32_MC1_STATUS :: u32 where "MSR_IA32_MC1_STATUS = 0x405"
definition MSR_IA32_MC2_STATUS :: u32 where "MSR_IA32_MC2_STATUS = 0x409"
definition MSR_IA32_MC3_STATUS :: u32 where "MSR_IA32_MC3_STATUS = 0x40d"
definition MSR_IA32_MC4_STATUS :: u32 where "MSR_IA32_MC4_STATUS = 0x411"
definition MSR_IA32_MC4_MISC :: u32 where "MSR_IA32_MC4_MISC = 0x413"
definition MSR_IA32_MC5_STATUS :: u32 where "MSR_IA32_MC5_STATUS = 0x415"
definition MSR_EFER :: u32 where "MSR_EFER = 0xc0000080"
definition MSR_F10_MC4_MISC1 :: u32 where "MSR_F10_MC4_MISC1 = 0xc0000408"
definition MSR_F10_MC4_MISC3 :: u32 where "MSR_F10_MC4_MISC3 = 0xc000040a"
definition MSR_K8_VM_HSAVE_PA :: u32 where "MSR_K8_VM_HSAVE_PA = 0xc0010117"

section \<open>The event-injection word\<close>

text \<open>
  The type eventinj_t is a union of a 64-bit word (bytes) and its bit fields: vector in
  bits 0-7, type in bits 8-10, ev (an error code is delivered) in bit 11, a reserved field
  in bits 12-30, v (valid) in bit 31, errorcode in bits 32-63. The model keeps the word
  and reads and writes the fields by their bit ranges.
\<close>

type_synonym eventinj_t = u64

definition ei_vector :: "eventinj_t \<Rightarrow> u8" where
  "ei_vector e = ucast e"

definition ei_type :: "eventinj_t \<Rightarrow> 3 word" where
  "ei_type e = ucast (drop_bit 8 e)"

definition ei_ev :: "eventinj_t \<Rightarrow> bool" where
  "ei_ev e = bit e 11"

definition ei_resvd1 :: "eventinj_t \<Rightarrow> 19 word" where
  "ei_resvd1 e = ucast (drop_bit 12 e)"

definition ei_v :: "eventinj_t \<Rightarrow> bool" where
  "ei_v e = bit e 31"

definition ei_errorcode :: "eventinj_t \<Rightarrow> u32" where
  "ei_errorcode e = ucast (drop_bit 32 e)"

definition set_ei_vector :: "u8 \<Rightarrow> eventinj_t \<Rightarrow> eventinj_t" where
  "set_ei_vector x e = (e AND NOT (mask 8)) OR ucast x"

definition set_ei_type :: "3 word \<Rightarrow> eventinj_t \<Rightarrow> eventinj_t" where
  "set_ei_type x e = (e AND NOT (push_bit 8 (mask 3))) OR push_bit 8 (ucast x)"

definition set_ei_ev :: "bool \<Rightarrow> eventinj_t \<Rightarrow> eventinj_t" where
  "set_ei_ev x e = (if x then set_bit 11 e else unset_bit 11 e)"

definition set_ei_v :: "bool \<Rightarrow> eventinj_t \<Rightarrow> eventinj_t" where
  "set_ei_v x e = (if x then set_bit 31 e else unset_bit 31 e)"

definition set_ei_errorcode :: "u32 \<Rightarrow> eventinj_t \<Rightarrow> eventinj_t" where
  "set_ei_errorcode x e = (e AND mask 32) OR push_bit 32 (ucast x)"

section \<open>The saved context (struct hvm_hw_cpu)\<close>

text \<open>
  The fields of the save record that svm.c reads and writes. The pending event is a
  32-bit word with the same layout as the low half of the injection word:
  pending_vector in bits 0-7, pending_type in bits 8-10, pending_error_valid in bit 11,
  pending_reserved in bits 12-30, pending_valid in bit 31.
\<close>

record hvm_hw_cpu =
  ctxt_cr0 :: u64
  ctxt_cr2 :: u64
  ctxt_cr3 :: u64
  ctxt_cr4 :: u64
  ctxt_sysenter_cs :: u64
  ctxt_sysenter_esp :: u64
  ctxt_sysenter_eip :: u64
  pending_event :: u32
  error_code :: u32

definition pending_vector :: "hvm_hw_cpu \<Rightarrow> u8" where
  "pending_vector c = ucast (pending_event c)"

definition pending_type :: "hvm_hw_cpu \<Rightarrow> 3 word" where
  "pending_type c = ucast (drop_bit 8 (pending_event c))"

definition pending_error_valid :: "hvm_hw_cpu \<Rightarrow> bool" where
  "pending_error_valid c = bit (pending_event c) 11"

definition pending_reserved :: "hvm_hw_cpu \<Rightarrow> 19 word" where
  "pending_reserved c = ucast (drop_bit 12 (pending_event c))"

definition pending_valid :: "hvm_hw_cpu \<Rightarrow> bool" where
  "pending_valid c = bit (pending_event c) 31"

section \<open>The control block, the registers and the vcpu\<close>

record vmcb_struct =
  dr_intercepts :: u32
  exception_intercepts :: u32
  interrupt_shadow :: u64
  exitinfo1 :: u64
  eventinj :: eventinj_t
  np_enable :: u64
  h_cr3 :: u64
  lbr_control_enable :: bool
  efer :: u64
  cr4 :: u64
  cr3 :: u64
  cr0 :: u64
  dr7 :: u64
  dr6 :: u64
  sysenter_cs :: u64
  sysenter_esp :: u64
  sysenter_eip :: u64
  cr2 :: u64
  g_pat :: u64
  debugctlmsr :: u64
  lastbranchfromip :: u64
  lastbranchtoip :: u64
  lastintfromip :: u64
  lastinttoip :: u64

record cpu_user_regs =
  eip :: u64
  eflags :: u64
  eax :: u64
  ecx :: u64
  edx :: u64

text \<open>
  Calls that leave svm.c and act on state the file does not own are recorded, in order,
  in the field calls of the vcpu.
\<close>

datatype ext_call =
    Call_domain_crash
  | Call_setup_fpu
  | Call_svm_asid_inv_asid
  | Call_hvm_hlt u64
  | Call_get_page u64
  | Call_put_page u64
  | Call_paging_update_paging_modes
  | Call_hvm_set_guest_time u64
  | Call_pt_reset
  | Call_vlapic_msr_set u64
  | Call_svm_disable_intercept_for_msr u32
  | Call_rdmsr_hypervisor_regs u32
  | Call_rdmsr_safe u32
  | Call_wrmsr_hypervisor_regs u32 u64 u64

text \<open>
  One vcpu with what svm.c reaches through it: its control block, the canonical control
  registers (arrays indexed by register number), the canonical EFER, the debug-register
  shadow, the guest's register frame (guest_cpu_user_regs), the paging mode of its
  domain, and whether it is the vcpu running on this core (v == current). cpu_debugreg
  are the debug registers of the physical core (read_debugreg, write_debugreg).
\<close>

record vcpu =
  vmcb :: vmcb_struct
  guest_cr :: "nat \<Rightarrow> u64"
  hw_cr :: "nat \<Rightarrow> u64"
  guest_efer :: u64
  flag_dr_dirty :: u8
  debugreg :: "nat \<Rightarrow> u64"
  cpu_debugreg :: "nat \<Rightarrow> u64"
  guest_table :: u64
  phys_table :: u64
  apic_base_msr :: u64
  user_regs :: cpu_user_regs
  paging_mode_hap :: bool
  is_current :: bool
  calls :: "ext_call list"

section \<open>Debug registers\<close>

definition svm_save_dr :: "vcpu \<Rightarrow> vcpu" where
  "svm_save_dr v =
     (if flag_dr_dirty v = 0 then v
      else
        let v1 = v\<lparr>flag_dr_dirty := 0\<rparr>;
            v2 = v1\<lparr>vmcb := (vmcb v1)\<lparr>dr_intercepts := NOT 0\<rparr>\<rparr>
        in v2\<lparr>debugreg := (debugreg v2)
               (0 := cpu_debugreg v2 0, 1 := cpu_debugreg v2 1,
                2 := cpu_debugreg v2 2, 3 := cpu_debugreg v2 3,
                6 := dr6 (vmcb v2), 7 := dr7 (vmcb v2))\<rparr>)"

definition restore_debug_registers :: "vcpu \<Rightarrow> vcpu" where
  "restore_debug_registers v =
     (if flag_dr_dirty v \<noteq> 0 then v
      else
        let v1 = v\<lparr>flag_dr_dirty := 1\<rparr>;
            v2 = v1\<lparr>vmcb := (vmcb v1)\<lparr>dr_intercepts := 0\<rparr>\<rparr>;
            v3 = v2\<lparr>cpu_debugreg := (cpu_debugreg v2)
               (0 := debugreg v2 0, 1 := debugreg v2 1,
                2 := debugreg v2 2, 3 := debugreg v2 3)\<rparr>
        in v3\<lparr>vmcb := (vmcb v3)\<lparr>dr6 := debugreg v3 6, dr7 := debugreg v3 7\<rparr>\<rparr>)"

text \<open>The invariant of the lazy debug-register discipline: the dirty flag is nonzero
  exactly when no debug-register access is intercepted.\<close>

definition dr_inv :: "vcpu \<Rightarrow> bool" where
  "dr_inv v = ((flag_dr_dirty v \<noteq> 0) = (dr_intercepts (vmcb v) = 0))"

section \<open>External collaborators\<close>

datatype hvm_intsrc = hvm_intsrc_none | hvm_intsrc_pic | hvm_intsrc_lapic | hvm_intsrc_nmi

record hvm_intack =
  source :: hvm_intsrc
  vector :: u8

datatype instruction_index =
    INSTR_INVD | INSTR_WBINVD | INSTR_CPUID | INSTR_RDMSR | INSTR_WRMSR
  | INSTR_VMCALL | INSTR_HLT | INSTR_INT3

datatype handler_return = HNDL_done | HNDL_unhandled | HNDL_exception_raised

text \<open>
  Functions and configuration that svm.c uses and other files define. They are parameters
  of the model: a theorem holds for every choice of them. HVM_CR4_HOST_MASK depends on
  the build configuration. hvm_combine_hw_exceptions is the exception-escalation table,
  hvm_event_needs_reinjection the redelivery predicate, get_instruction_length the
  instruction decoder (0 when the bytes at the instruction pointer do not decode).
  gfn_to_mfn gives the frame of a guest frame number and whether its type is RAM;
  get_page tells whether a reference to the frame could be taken. rdmsr_hypervisor_regs
  and rdmsr_safe give the two halves of the register when the read succeeds.
  hvm_set_efer returns whether it raised an exception, with the vcpu as it leaves it.
\<close>

record hvm_env =
  HVM_CR4_HOST_MASK :: u64
  cpu_has_svm_lbrv :: bool
  hvm_combine_hw_exceptions :: "u8 \<Rightarrow> u32 \<Rightarrow> u32"
  hvm_event_needs_reinjection :: "3 word \<Rightarrow> u8 \<Rightarrow> bool"
  get_instruction_length :: "vcpu \<Rightarrow> instruction_index \<Rightarrow> u32"
  hvm_vcpu_has_pending_irq :: "vcpu \<Rightarrow> hvm_intack"
  hvm_interrupt_blocked :: "vcpu \<Rightarrow> hvm_intack \<Rightarrow> bool"
  hvm_get_guest_time :: "vcpu \<Rightarrow> u64"
  gfn_to_mfn :: "u64 \<Rightarrow> u64 \<times> bool"
  get_page :: "u64 \<Rightarrow> bool"
  rdmsr_hypervisor_regs :: "u32 \<Rightarrow> (u32 \<times> u32) option"
  rdmsr_safe :: "u32 \<Rightarrow> (u32 \<times> u32) option"
  hvm_set_efer :: "u64 \<Rightarrow> vcpu \<Rightarrow> bool \<times> vcpu"

definition ext :: "ext_call \<Rightarrow> vcpu \<Rightarrow> vcpu" where
  "ext c v = v\<lparr>calls := calls v @ [c]\<rparr>"

section \<open>Event injection\<close>

text \<open>Trace and log output (HVMTRACE, gdprintk, HVM_DBG_LOG) is left out throughout.\<close>

definition svm_inject_exception :: "hvm_env \<Rightarrow> u32 \<Rightarrow> u32 \<Rightarrow> u64 \<Rightarrow> vcpu \<Rightarrow> vcpu" where
  "svm_inject_exception env trapnr errcode cr2v v =
     (let event = eventinj (vmcb v);
          pending_hw = (ei_v event \<and> ei_type event = X86_EVENTTYPE_HW_EXCEPTION);
          trapnr1 = (if pending_hw
                     then hvm_combine_hw_exceptions env (ei_vector event) trapnr
                     else trapnr);
          errcode1 = (if pending_hw \<and> trapnr1 = TRAP_double_fault then 0 else errcode);
          event1 = set_ei_errorcode errcode1
                     (set_ei_ev (errcode1 \<noteq> HVM_DELIVER_NO_ERROR_CODE)
                       (set_ei_vector (ucast trapnr1)
                         (set_ei_type X86_EVENTTYPE_HW_EXCEPTION
                           (set_ei_v True 0))));
          v1 = v\<lparr>vmcb := (vmcb v)\<lparr>eventinj := event1\<rparr>\<rparr>;
          v2 = (if trapnr1 = TRAP_page_fault
                then v1\<lparr>guest_cr := (guest_cr v1)(2 := cr2v),
                        vmcb := (vmcb v1)\<lparr>cr2 := cr2v\<rparr>\<rparr>
                else v1)
      in if trapnr1 = TRAP_debug \<and> eflags (user_regs v2) AND X86_EFLAGS_TF \<noteq> 0
         then let v3 = restore_debug_registers v2
              in v3\<lparr>vmcb := (vmcb v3)\<lparr>dr6 := dr6 (vmcb v3) OR 0x4000\<rparr>\<rparr>
         else v2)"

definition svm_event_pending :: "vcpu \<Rightarrow> bool" where
  "svm_event_pending v = ei_v (eventinj (vmcb v))"

section \<open>Advancing the instruction pointer\<close>

definition update_guest_eip :: "hvm_env \<Rightarrow> u32 \<Rightarrow> vcpu \<Rightarrow> vcpu" where
  "update_guest_eip env inst_len v =
     (if inst_len = 0 \<or> inst_len > 15 then ext Call_domain_crash v
      else
        let r = user_regs v;
            r1 = r\<lparr>eip := eip r + ucast inst_len\<rparr>;
            r2 = r1\<lparr>eflags := eflags r1 AND NOT X86_EFLAGS_RF\<rparr>;
            v1 = v\<lparr>user_regs := r2\<rparr>;
            v2 = v1\<lparr>vmcb := (vmcb v1)\<lparr>interrupt_shadow := 0\<rparr>\<rparr>
        in if eflags (user_regs v2) AND X86_EFLAGS_TF \<noteq> 0
           then svm_inject_exception env TRAP_debug HVM_DELIVER_NO_ERROR_CODE 0 v2
           else v2)"

section \<open>State projection\<close>

definition svm_fpu_enter :: "vcpu \<Rightarrow> vcpu" where
  "svm_fpu_enter v =
     (let v1 = ext Call_setup_fpu v
      in v1\<lparr>vmcb := (vmcb v1)\<lparr>exception_intercepts :=
              exception_intercepts (vmcb v1) AND NOT (push_bit TRAP_no_device 1)\<rparr>\<rparr>)"

text \<open>The default branch of the switch is BUG(): the result None.\<close>

definition svm_update_guest_cr :: "hvm_env \<Rightarrow> vcpu \<Rightarrow> u32 \<Rightarrow> vcpu option" where
  "svm_update_guest_cr env v cr =
     (if cr = 0 then
        let (hw_cr0_mask, v1) =
              (if guest_cr v 0 AND X86_CR0_TS = 0
               then (if \<not> is_current v then (X86_CR0_TS, v)
                     else if cr0 (vmcb v) AND X86_CR0_TS \<noteq> 0 then (0, svm_fpu_enter v)
                     else (0, v))
               else (0, v));
            v2 = v1\<lparr>vmcb := (vmcb v1)\<lparr>cr0 := guest_cr v1 0 OR hw_cr0_mask\<rparr>\<rparr>
        in Some (if \<not> paging_mode_hap v2
                 then v2\<lparr>vmcb := (vmcb v2)\<lparr>cr0 :=
                         cr0 (vmcb v2) OR (X86_CR0_PG OR X86_CR0_WP)\<rparr>\<rparr>
                 else v2)
      else if cr = 2 then
        Some (v\<lparr>vmcb := (vmcb v)\<lparr>cr2 := guest_cr v 2\<rparr>\<rparr>)
      else if cr = 3 then
        Some (ext Call_svm_asid_inv_asid (v\<lparr>vmcb := (vmcb v)\<lparr>cr3 := hw_cr v 3\<rparr>\<rparr>))
      else if cr = 4 then
        let v1 = v\<lparr>vmcb := (vmcb v)\<lparr>cr4 := HVM_CR4_HOST_MASK env\<rparr>\<rparr>;
            v2 = (if paging_mode_hap v1
                  then v1\<lparr>vmcb := (vmcb v1)\<lparr>cr4 := cr4 (vmcb v1) AND NOT X86_CR4_PAE\<rparr>\<rparr>
                  else v1)
        in Some (v2\<lparr>vmcb := (vmcb v2)\<lparr>cr4 := cr4 (vmcb v2) OR guest_cr v2 4\<rparr>\<rparr>)
      else None)"

definition svm_update_guest_efer :: "vcpu \<Rightarrow> vcpu" where
  "svm_update_guest_efer v =
     (let v1 = v\<lparr>vmcb := (vmcb v)\<lparr>efer := (guest_efer v OR EFER_SVME) AND NOT EFER_LME\<rparr>\<rparr>
      in if efer (vmcb v1) AND EFER_LMA \<noteq> 0
         then v1\<lparr>vmcb := (vmcb v1)\<lparr>efer := efer (vmcb v1) OR EFER_LME\<rparr>\<rparr>
         else v1)"

section \<open>Save and restore\<close>

text \<open>svm_vmcb_save takes the vcpu and the record by pointer; the model returns the
  return value, the vcpu as the function leaves it, and the record.\<close>

definition svm_vmcb_save :: "hvm_env \<Rightarrow> vcpu \<Rightarrow> hvm_hw_cpu \<Rightarrow> int \<times> vcpu \<times> hvm_hw_cpu" where
  "svm_vmcb_save env v c =
     (let c1 = c\<lparr>ctxt_cr0 := guest_cr v 0, ctxt_cr2 := guest_cr v 2,
                 ctxt_cr3 := guest_cr v 3, ctxt_cr4 := guest_cr v 4\<rparr>;
          c2 = c1\<lparr>ctxt_sysenter_cs := sysenter_cs (vmcb v),
                  ctxt_sysenter_esp := sysenter_esp (vmcb v),
                  ctxt_sysenter_eip := sysenter_eip (vmcb v)\<rparr>;
          c3 = c2\<lparr>pending_event := 0, error_code := 0\<rparr>;
          e = eventinj (vmcb v)
      in if ei_v e \<and> hvm_event_needs_reinjection env (ei_type e) (ei_vector e)
         then (1, v, c3\<lparr>pending_event := ucast e, error_code := ei_errorcode e\<rparr>)
         else (1, v, c3))"

text \<open>The result is None only if svm_update_guest_cr runs into BUG().\<close>

definition svm_vmcb_restore :: "hvm_env \<Rightarrow> vcpu \<Rightarrow> hvm_hw_cpu \<Rightarrow> (int \<times> vcpu) option" where
  "svm_vmcb_restore env v c =
     (if pending_valid c \<and>
         (pending_type c = 1 \<or> pending_type c > 6 \<or> pending_reserved c \<noteq> 0)
      then Some (- EINVAL, v)
      else
        let (mfn, is_ram) = (if \<not> paging_mode_hap v \<and> ctxt_cr0 c AND X86_CR0_PG \<noteq> 0
                             then gfn_to_mfn env (drop_bit PAGE_SHIFT (ctxt_cr3 c))
                             else (0, True));
            lookup = (\<not> paging_mode_hap v \<and> ctxt_cr0 c AND X86_CR0_PG \<noteq> 0)
        in if lookup \<and> \<not> is_ram then Some (- EINVAL, v)
           else if lookup \<and> \<not> get_page env mfn then Some (- EINVAL, ext (Call_get_page mfn) v)
           else
             let v1 = (if lookup then ext (Call_get_page mfn) v else v);
                 v2 = (if \<not> paging_mode_hap v1
                       then (if guest_cr v1 0 AND X86_CR0_PG \<noteq> 0
                             then ext (Call_put_page (guest_table v1)) v1
                             else v1)\<lparr>guest_table := mfn\<rparr>
                       else v1);
                 v3 = v2\<lparr>guest_cr := (guest_cr v2)
                         (0 := ctxt_cr0 c OR X86_CR0_ET, 2 := ctxt_cr2 c,
                          3 := ctxt_cr3 c, 4 := ctxt_cr4 c)\<rparr>
             in case Option.bind (Option.bind (svm_update_guest_cr env v3 0)
                        (\<lambda>w. svm_update_guest_cr env w 2))
                        (\<lambda>w. svm_update_guest_cr env w 4) of
                  None \<Rightarrow> None
                | Some v4 \<Rightarrow>
                    let v5 = v4\<lparr>vmcb := (vmcb v4)\<lparr>sysenter_cs := ctxt_sysenter_cs c,
                                  sysenter_esp := ctxt_sysenter_esp c,
                                  sysenter_eip := ctxt_sysenter_eip c\<rparr>\<rparr>;
                        v6 = (if paging_mode_hap v5
                              then v5\<lparr>vmcb := (vmcb v5)\<lparr>np_enable := 1,
                                      g_pat := 0x0007040600070406,
                                      h_cr3 := phys_table v5\<rparr>\<rparr>
                              else v5);
                        v7 = (if pending_valid c \<and>
                                 hvm_event_needs_reinjection env (pending_type c) (pending_vector c)
                              then v6\<lparr>vmcb := (vmcb v6)\<lparr>eventinj :=
                                      set_ei_errorcode (error_code c) (ucast (pending_event c))\<rparr>\<rparr>
                              else v6)
                    in Some (0, ext Call_paging_update_paging_modes v7))"

section \<open>MSR intercepts\<close>

definition msr_content_of :: "cpu_user_regs \<Rightarrow> u64" where
  "msr_content_of r = ucast (ucast (eax r) :: u32) OR push_bit 32 (edx r)"

definition long_mode_do_msr_write :: "hvm_env \<Rightarrow> vcpu \<Rightarrow> handler_return \<times> vcpu" where
  "long_mode_do_msr_write env v =
     (let msr_content = msr_content_of (user_regs v);
          ecx = (ucast (ecx (user_regs v)) :: u32)
      in if ecx = MSR_EFER then
           (case hvm_set_efer env msr_content v of
              (raised, v1) \<Rightarrow> (if raised then HNDL_exception_raised else HNDL_done, v1))
         else if ecx = MSR_IA32_MC4_MISC \<or> (MSR_F10_MC4_MISC1 \<le> ecx \<and> ecx \<le> MSR_F10_MC4_MISC3)
         then (HNDL_done, v)
         else (HNDL_unhandled, v))"

definition msr_read_done :: "u64 \<Rightarrow> vcpu \<Rightarrow> int \<times> vcpu" where
  "msr_read_done msr_content v =
     (X86EMUL_OKAY,
      v\<lparr>user_regs := (user_regs v)\<lparr>eax := msr_content AND 0xFFFFFFFF,
                                    edx := drop_bit 32 msr_content\<rparr>\<rparr>)"

definition msr_gpf :: "hvm_env \<Rightarrow> vcpu \<Rightarrow> int \<times> vcpu" where
  "msr_gpf env v = (X86EMUL_EXCEPTION, svm_inject_exception env TRAP_gp_fault 0 0 v)"

definition svm_msr_read_intercept :: "hvm_env \<Rightarrow> vcpu \<Rightarrow> int \<times> vcpu" where
  "svm_msr_read_intercept env v =
     (let ecx = (ucast (ecx (user_regs v)) :: u32)
      in if ecx = MSR_IA32_TSC then msr_read_done (hvm_get_guest_time env v) v
         else if ecx = MSR_IA32_APICBASE then msr_read_done (apic_base_msr v) v
         else if ecx = MSR_EFER then msr_read_done (guest_efer v) v
         else if ecx = MSR_IA32_MC4_MISC \<or> (MSR_F10_MC4_MISC1 \<le> ecx \<and> ecx \<le> MSR_F10_MC4_MISC3)
         then msr_read_done (push_bit 61 1) v
         else if ecx = MSR_IA32_EBC_FREQUENCY_ID then msr_read_done 0 v
         else if ecx = MSR_K8_VM_HSAVE_PA then msr_gpf env v
         else if ecx \<in> {MSR_IA32_MCG_CAP, MSR_IA32_MCG_STATUS, MSR_IA32_MC0_STATUS,
                         MSR_IA32_MC1_STATUS, MSR_IA32_MC2_STATUS, MSR_IA32_MC3_STATUS,
                         MSR_IA32_MC4_STATUS, MSR_IA32_MC5_STATUS}
         then msr_read_done 0 v
         else if ecx = MSR_IA32_DEBUGCTLMSR then msr_read_done (debugctlmsr (vmcb v)) v
         else if ecx = MSR_IA32_LASTBRANCHFROMIP then msr_read_done (lastbranchfromip (vmcb v)) v
         else if ecx = MSR_IA32_LASTBRANCHTOIP then msr_read_done (lastbranchtoip (vmcb v)) v
         else if ecx = MSR_IA32_LASTINTFROMIP then msr_read_done (lastintfromip (vmcb v)) v
         else if ecx = MSR_IA32_LASTINTTOIP then msr_read_done (lastinttoip (vmcb v)) v
         else
           let v1 = ext (Call_rdmsr_hypervisor_regs ecx) v
           in case rdmsr_hypervisor_regs env ecx of
                Some (lo, hi) \<Rightarrow>
                  (X86EMUL_OKAY,
                   v1\<lparr>user_regs := (user_regs v1)\<lparr>eax := ucast lo, edx := ucast hi\<rparr>\<rparr>)
              | None \<Rightarrow>
                  let v2 = ext (Call_rdmsr_safe ecx) v1
                  in case rdmsr_safe env ecx of
                       Some (lo, hi) \<Rightarrow>
                         (X86EMUL_OKAY,
                          v2\<lparr>user_regs := (user_regs v2)\<lparr>eax := ucast lo, edx := ucast hi\<rparr>\<rparr>)
                     | None \<Rightarrow> msr_gpf env v2)"

definition svm_msr_write_intercept :: "hvm_env \<Rightarrow> vcpu \<Rightarrow> int \<times> vcpu" where
  "svm_msr_write_intercept env v =
     (let ecx = (ucast (ecx (user_regs v)) :: u32);
          msr_content = msr_content_of (user_regs v)
      in if ecx = MSR_IA32_TSC
         then (X86EMUL_OKAY, ext Call_pt_reset (ext (Call_hvm_set_guest_time msr_content) v))
         else if ecx = MSR_IA32_APICBASE
         then (X86EMUL_OKAY, ext (Call_vlapic_msr_set msr_content) v)
         else if ecx = MSR_K8_VM_HSAVE_PA then msr_gpf env v
         else if ecx = MSR_IA32_DEBUGCTLMSR then
           let v1 = v\<lparr>vmcb := (vmcb v)\<lparr>debugctlmsr := msr_content\<rparr>\<rparr>
           in if msr_content = 0 \<or> \<not> cpu_has_svm_lbrv env then (X86EMUL_OKAY, v1)
              else
                let v2 = v1\<lparr>vmcb := (vmcb v1)\<lparr>lbr_control_enable := True\<rparr>\<rparr>
                in (X86EMUL_OKAY,
                    foldl (\<lambda>w m. ext (Call_svm_disable_intercept_for_msr m) w) v2
                      [MSR_IA32_DEBUGCTLMSR, MSR_IA32_LASTBRANCHFROMIP,
                       MSR_IA32_LASTBRANCHTOIP, MSR_IA32_LASTINTFROMIP,
                       MSR_IA32_LASTINTTOIP])
         else if ecx = MSR_IA32_LASTBRANCHFROMIP
         then (X86EMUL_OKAY, v\<lparr>vmcb := (vmcb v)\<lparr>lastbranchfromip := msr_content\<rparr>\<rparr>)
         else if ecx = MSR_IA32_LASTBRANCHTOIP
         then (X86EMUL_OKAY, v\<lparr>vmcb := (vmcb v)\<lparr>lastbranchtoip := msr_content\<rparr>\<rparr>)
         else if ecx = MSR_IA32_LASTINTFROMIP
         then (X86EMUL_OKAY, v\<lparr>vmcb := (vmcb v)\<lparr>lastintfromip := msr_content\<rparr>\<rparr>)
         else if ecx = MSR_IA32_LASTINTTOIP
         then (X86EMUL_OKAY, v\<lparr>vmcb := (vmcb v)\<lparr>lastinttoip := msr_content\<rparr>\<rparr>)
         else
           (case long_mode_do_msr_write env v of
              (HNDL_unhandled, v1) \<Rightarrow>
                (X86EMUL_OKAY,
                 ext (Call_wrmsr_hypervisor_regs ecx (eax (user_regs v1)) (edx (user_regs v1))) v1)
            | (HNDL_exception_raised, v1) \<Rightarrow> (X86EMUL_EXCEPTION, v1)
            | (HNDL_done, v1) \<Rightarrow> (X86EMUL_OKAY, v1)))"

definition svm_do_msr_access :: "hvm_env \<Rightarrow> vcpu \<Rightarrow> vcpu" where
  "svm_do_msr_access env v =
     (let (rc, v1) = (if exitinfo1 (vmcb v) = 0 then svm_msr_read_intercept env v
                      else svm_msr_write_intercept env v);
          inst_len = (if exitinfo1 (vmcb v) = 0 then get_instruction_length env v1 INSTR_RDMSR
                      else get_instruction_length env v1 INSTR_WRMSR)
      in if rc = X86EMUL_OKAY then update_guest_eip env inst_len v1 else v1)"

section \<open>Halt\<close>

definition svm_vmexit_do_hlt :: "hvm_env \<Rightarrow> vcpu \<Rightarrow> vcpu" where
  "svm_vmexit_do_hlt env v =
     (let intack = hvm_vcpu_has_pending_irq env v;
          inst_len = get_instruction_length env v INSTR_HLT
      in if inst_len = 0 then v
         else
           let v1 = update_guest_eip env inst_len v
           in if ei_v (eventinj (vmcb v1)) \<or>
                 (source intack \<noteq> hvm_intsrc_none \<and> \<not> hvm_interrupt_blocked env v1 intack)
              then v1
              else ext (Call_hvm_hlt (eflags (user_regs v1))) v1)"

section \<open>Concrete states\<close>

text \<open>
  Inputs at which the theorems below are evaluated. vmcb0 is a control block with every
  debug-register access intercepted and nothing else set; vcpu0 runs without
  hardware-assisted paging, with interrupts enabled and the resume flag set. env0 fixes the
  external functions: two general-protection faults in a row escalate to a double fault,
  hardware exceptions other than breakpoint and overflow are redelivered, HLT decodes to
  one byte and no interrupt is pending.
\<close>

definition vmcb0 :: vmcb_struct where
  "vmcb0 = \<lparr>dr_intercepts = NOT 0, exception_intercepts = 0, interrupt_shadow = 0,
     exitinfo1 = 0, eventinj = 0, np_enable = 0, h_cr3 = 0, lbr_control_enable = False,
     efer = 0, cr4 = 0, cr3 = 0, cr0 = 0, dr7 = 0, dr6 = 0, sysenter_cs = 0,
     sysenter_esp = 0, sysenter_eip = 0, cr2 = 0, g_pat = 0, debugctlmsr = 0,
     lastbranchfromip = 0, lastbranchtoip = 0, lastintfromip = 0, lastinttoip = 0\<rparr>"

definition regs0 :: cpu_user_regs where
  "regs0 = \<lparr>eip = 0x1000, eflags = 0x10202, eax = 0, ecx = 0, edx = 0\<rparr>"

definition vcpu0 :: vcpu where
  "vcpu0 = \<lparr>vmcb = vmcb0, guest_cr = (\<lambda>_. 0), hw_cr = (\<lambda>_. 0), guest_efer = 0,
     flag_dr_dirty = 0, debugreg = (\<lambda>_. 0), cpu_debugreg = (\<lambda>_. 0), guest_table = 0,
     phys_table = 0, apic_base_msr = 0, user_regs = regs0, paging_mode_hap = False,
     is_current = True, calls = []\<rparr>"

definition env0 :: hvm_env where
  "env0 = \<lparr>HVM_CR4_HOST_MASK = X86_CR4_VMXE OR X86_CR4_PAE,
     cpu_has_svm_lbrv = False,
     hvm_combine_hw_exceptions =
       (\<lambda>vec1 vec2. if vec1 = 13 \<and> vec2 = 13 then TRAP_double_fault else vec2),
     hvm_event_needs_reinjection =
       (\<lambda>ty vec. ty = 0 \<or> ty = 2 \<or> (ty = 3 \<and> vec \<noteq> 3 \<and> vec \<noteq> 4)),
     get_instruction_length = (\<lambda>v i. if i = INSTR_HLT then 1 else 2),
     hvm_vcpu_has_pending_irq = (\<lambda>v. \<lparr>source = hvm_intsrc_none, vector = 0\<rparr>),
     hvm_interrupt_blocked = (\<lambda>v i. False),
     hvm_get_guest_time = (\<lambda>v. 0),
     gfn_to_mfn = (\<lambda>gfn. (gfn, True)),
     get_page = (\<lambda>mfn. True),
     rdmsr_hypervisor_regs = (\<lambda>msr. None),
     rdmsr_safe = (\<lambda>msr. None),
     hvm_set_efer = (\<lambda>x v. (False, v))\<rparr>"

text \<open>The slot holds a valid general-protection fault (vector 13, type 3) with an error
  code: the event word 0x80000B0D.\<close>

definition vcpu_gp_pending :: vcpu where
  "vcpu_gp_pending = vcpu0\<lparr>vmcb := vmcb0\<lparr>eventinj := 0x80000B0D\<rparr>\<rparr>"

definition vcpu_hap_pae :: vcpu where
  "vcpu_hap_pae = vcpu0\<lparr>paging_mode_hap := True, guest_cr := (\<lambda>_. 0)(4 := X86_CR4_PAE)\<rparr>"

definition vcpu_lma :: vcpu where
  "vcpu_lma = vcpu0\<lparr>guest_efer := EFER_LMA\<rparr>"

definition vcpu_hsave :: vcpu where
  "vcpu_hsave = vcpu0\<lparr>user_regs := regs0\<lparr>ecx := 0xc0010117\<rparr>\<rparr>"

definition vcpu_tf :: vcpu where
  "vcpu_tf = vcpu0\<lparr>user_regs := regs0\<lparr>eflags := 0x10302\<rparr>\<rparr>"

definition ctxt0 :: hvm_hw_cpu where
  "ctxt0 = \<lparr>ctxt_cr0 = 0, ctxt_cr2 = 0, ctxt_cr3 = 0, ctxt_cr4 = 0, ctxt_sysenter_cs = 0,
     ctxt_sysenter_esp = 0, ctxt_sysenter_eip = 0, pending_event = 0, error_code = 0\<rparr>"

text \<open>A saved context whose pending event is valid and has type code 1.\<close>

definition ctxt_type1 :: hvm_hw_cpu where
  "ctxt_type1 = ctxt0\<lparr>pending_event := 0x80000100\<rparr>"

section \<open>Bit fields of the event word\<close>

lemmas ei_defs = ei_v_def ei_type_def ei_vector_def ei_ev_def ei_errorcode_def ei_resvd1_def
  set_ei_errorcode_def set_ei_ev_def set_ei_vector_def set_ei_type_def set_ei_v_def

lemma ei_v_set:
  "ei_v (set_ei_v b e) = b"
  "ei_v (set_ei_type t e) = ei_v e"
  "ei_v (set_ei_vector vec e) = ei_v e"
  "ei_v (set_ei_ev b e) = ei_v e"
  "ei_v (set_ei_errorcode ec e) = ei_v e"
  by (auto simp add: ei_defs bit_simps dest: bit_imp_le_length)

lemma ei_ev_set:
  "ei_ev (set_ei_v b e) = ei_ev e"
  "ei_ev (set_ei_type t e) = ei_ev e"
  "ei_ev (set_ei_vector vec e) = ei_ev e"
  "ei_ev (set_ei_ev b e) = b"
  "ei_ev (set_ei_errorcode ec e) = ei_ev e"
  by (auto simp add: ei_defs bit_simps dest: bit_imp_le_length)

lemma ei_type_set:
  "ei_type (set_ei_v b e) = ei_type e"
  "ei_type (set_ei_type t e) = t"
  "ei_type (set_ei_vector vec e) = ei_type e"
  "ei_type (set_ei_ev b e) = ei_type e"
  "ei_type (set_ei_errorcode ec e) = ei_type e"
  unfolding ei_defs
  by (rule bit_word_eqI; auto simp add: bit_simps dest: bit_imp_le_length)+

lemma ei_vector_set:
  "ei_vector (set_ei_v b e) = ei_vector e"
  "ei_vector (set_ei_type t e) = ei_vector e"
  "ei_vector (set_ei_vector vec e) = vec"
  "ei_vector (set_ei_ev b e) = ei_vector e"
  "ei_vector (set_ei_errorcode ec e) = ei_vector e"
  unfolding ei_defs
  by (rule bit_word_eqI; auto simp add: bit_simps dest: bit_imp_le_length)+

lemma ei_errorcode_set:
  "ei_errorcode (set_ei_v b e) = ei_errorcode e"
  "ei_errorcode (set_ei_type t e) = ei_errorcode e"
  "ei_errorcode (set_ei_vector vec e) = ei_errorcode e"
  "ei_errorcode (set_ei_ev b e) = ei_errorcode e"
  "ei_errorcode (set_ei_errorcode ec e) = ec"
  unfolding ei_defs
  by (rule bit_word_eqI; auto simp add: bit_simps dest: bit_imp_le_length)+

lemma ei_resvd1_set:
  "ei_resvd1 (set_ei_v b e) = ei_resvd1 e"
  "ei_resvd1 (set_ei_type t e) = ei_resvd1 e"
  "ei_resvd1 (set_ei_vector vec e) = ei_resvd1 e"
  "ei_resvd1 (set_ei_ev b e) = ei_resvd1 e"
  "ei_resvd1 (set_ei_errorcode ec e) = ei_resvd1 e"
  unfolding ei_defs
  by (rule bit_word_eqI; auto simp add: bit_simps dest: bit_imp_le_length)+

lemma ei_zero:
  "ei_v 0 = False" "ei_ev 0 = False" "ei_type 0 = 0" "ei_vector 0 = 0"
  "ei_errorcode 0 = 0" "ei_resvd1 0 = 0"
  by (simp_all add: ei_defs)

text \<open>The low half of the event word, as the save record keeps it, has the same fields.\<close>

lemma low_half_bits:
  fixes e :: u64
  shows "bit (ucast e :: u32) 11 = bit e 11" and "bit (ucast e :: u32) 31 = bit e 31"
  by (simp_all add: bit_simps)

lemma low_half_fields:
  fixes e :: u64
  shows "(ucast (ucast e :: u32) :: u8) = ucast e"
    and "(ucast (drop_bit 8 (ucast e :: u32)) :: 3 word) = ucast (drop_bit 8 e)"
    and "(ucast (drop_bit 12 (ucast e :: u32)) :: 19 word) = ucast (drop_bit 12 e)"
  by (rule bit_word_eqI; auto simp add: bit_simps)+

lemma pending_of_ucast:
  fixes e :: u64
  shows "pending_vector (c\<lparr>pending_event := ucast e, error_code := x\<rparr>) = ei_vector e"
    and "pending_type (c\<lparr>pending_event := ucast e, error_code := x\<rparr>) = ei_type e"
    and "pending_error_valid (c\<lparr>pending_event := ucast e, error_code := x\<rparr>) = ei_ev e"
    and "pending_reserved (c\<lparr>pending_event := ucast e, error_code := x\<rparr>) = ei_resvd1 e"
    and "pending_valid (c\<lparr>pending_event := ucast e, error_code := x\<rparr>) = ei_v e"
  by (simp_all add: pending_vector_def pending_type_def pending_error_valid_def
      pending_reserved_def pending_valid_def ei_defs low_half_bits low_half_fields)

section \<open>Facts about single bits and masks\<close>

lemma or_and_absorb:
  fixes x a b :: "'a::len word"
  shows "(x OR (a OR b)) AND a = a" and "(x OR (a OR b)) AND b = b"
  by (rule bit_word_eqI; auto simp add: bit_simps)+

lemma and_not_bit_and_bit:
  fixes x :: "'a::len word"
  assumes "a \<noteq> b"
  shows "(x AND NOT (push_bit a 1)) AND push_bit b 1 = x AND push_bit b 1"
  using assms by (intro bit_word_eqI) (auto simp add: bit_simps)

lemma tf_rf: "(x AND NOT X86_EFLAGS_RF) AND X86_EFLAGS_TF = x AND X86_EFLAGS_TF"
  using and_not_bit_and_bit [of 16 8 x]
  by (simp add: X86_EFLAGS_RF_def X86_EFLAGS_TF_def)

lemma test_single_bit:
  fixes x :: "'a::len word"
  shows "(x AND push_bit k 1 = 0) = (\<not> bit x k)"
proof
  assume "x AND push_bit k 1 = 0"
  then have "\<not> bit (x AND push_bit k 1) k" by simp
  then show "\<not> bit x k"
    by (auto simp add: bit_simps dest: bit_imp_le_length)
next
  assume n: "\<not> bit x k"
  show "x AND push_bit k 1 = 0"
    by (rule bit_word_eqI) (use n in \<open>auto simp add: bit_simps\<close>)
qed

text \<open>
  The computation of svm_update_guest_efer on three distinct bit positions: s is forced
  on, l is cleared and then set again exactly when bit a is set.
\<close>

lemma force_clear_mirror:
  fixes g :: "'a::len word"
  assumes sl: "s \<noteq> l" and al: "a \<noteq> l" and as: "a \<noteq> s" and l: "l < LENGTH('a)"
  defines "e1 \<equiv> (g OR push_bit s 1) AND NOT (push_bit l 1)"
  defines "e \<equiv> if e1 AND push_bit a 1 \<noteq> 0 then e1 OR push_bit l 1 else e1"
  shows "e AND push_bit s 1 = push_bit s 1"
    and "(e AND push_bit l 1 \<noteq> 0) = (g AND push_bit a 1 \<noteq> 0)"
    and "e AND NOT (push_bit s 1 OR push_bit l 1) = g AND NOT (push_bit s 1 OR push_bit l 1)"
proof -
  have c: "(e1 AND push_bit a 1 \<noteq> 0) = bit g a"
    unfolding e1_def test_single_bit using al as
    by (auto simp add: bit_simps dest: bit_imp_le_length)
  show "e AND push_bit s 1 = push_bit s 1"
    unfolding e_def c e1_def using sl
    by (cases "bit g a"; simp only: if_True if_False; intro bit_word_eqI; auto simp add: bit_simps)
  show "(e AND push_bit l 1 \<noteq> 0) = (g AND push_bit a 1 \<noteq> 0)"
    unfolding e_def c unfolding e1_def test_single_bit using sl al as l
    by (cases "bit g a"; auto simp add: bit_simps dest: bit_imp_le_length)
  show "e AND NOT (push_bit s 1 OR push_bit l 1) = g AND NOT (push_bit s 1 OR push_bit l 1)"
    unfolding e_def c e1_def using sl
    by (cases "bit g a"; simp only: if_True if_False; intro bit_word_eqI; auto simp add: bit_simps)
qed

section \<open>What an injection changes\<close>

lemma restore_debug_registers_frame:
  "calls (restore_debug_registers v) = calls v"
  "user_regs (restore_debug_registers v) = user_regs v"
  "eventinj (vmcb (restore_debug_registers v)) = eventinj (vmcb v)"
  "interrupt_shadow (vmcb (restore_debug_registers v)) = interrupt_shadow (vmcb v)"
  by (simp_all add: restore_debug_registers_def Let_def)

lemma svm_inject_exception_frame:
  "calls (svm_inject_exception env t ec a v) = calls v"
  "user_regs (svm_inject_exception env t ec a v) = user_regs v"
  "interrupt_shadow (vmcb (svm_inject_exception env t ec a v)) = interrupt_shadow (vmcb v)"
  by (simp_all add: svm_inject_exception_def Let_def restore_debug_registers_frame)

lemma inject_tail:
  "eventinj (vmcb (if c then (restore_debug_registers v2)
                     \<lparr>vmcb := (vmcb (restore_debug_registers v2))
                        \<lparr>dr6 := dr6 (vmcb (restore_debug_registers v2)) OR d\<rparr>\<rparr>
                   else v2)) = eventinj (vmcb v2)"
  by (simp add: restore_debug_registers_frame)

lemma inject_mid:
  "eventinj (vmcb (if p then v1\<lparr>guest_cr := g, vmcb := (vmcb v1)\<lparr>cr2 := x\<rparr>\<rparr> else v1))
     = eventinj (vmcb v1)"
  by simp

lemma svm_inject_exception_eventinj:
  "eventinj (vmcb (svm_inject_exception env t ec a v)) =
     (let e = eventinj (vmcb v);
          hw = (ei_v e \<and> ei_type e = X86_EVENTTYPE_HW_EXCEPTION);
          t1 = (if hw then hvm_combine_hw_exceptions env (ei_vector e) t else t);
          ec1 = (if hw \<and> t1 = TRAP_double_fault then 0 else ec)
      in set_ei_errorcode ec1
           (set_ei_ev (ec1 \<noteq> HVM_DELIVER_NO_ERROR_CODE)
             (set_ei_vector (ucast t1)
               (set_ei_type X86_EVENTTYPE_HW_EXCEPTION (set_ei_v True 0)))))"
  unfolding svm_inject_exception_def
  apply (simp only: Let_def)
  apply (simp only: inject_tail inject_mid)
  apply (simp split del: if_split)
  done

lemma svm_inject_exception_slot:
  fixes env t ec a v
  defines "e \<equiv> eventinj (vmcb v)"
  defines "hw \<equiv> ei_v e \<and> ei_type e = X86_EVENTTYPE_HW_EXCEPTION"
  defines "t1 \<equiv> if hw then hvm_combine_hw_exceptions env (ei_vector e) t else t"
  defines "ec1 \<equiv> if hw \<and> t1 = TRAP_double_fault then 0 else ec"
  defines "e' \<equiv> eventinj (vmcb (svm_inject_exception env t ec a v))"
  shows "ei_v e'" and "ei_type e' = X86_EVENTTYPE_HW_EXCEPTION" and "ei_resvd1 e' = 0"
    and "ei_vector e' = ucast t1" and "ei_errorcode e' = ec1"
    and "ei_ev e' = (ec1 \<noteq> HVM_DELIVER_NO_ERROR_CODE)"
  unfolding e'_def ec1_def t1_def hw_def e_def svm_inject_exception_eventinj Let_def
  by (simp_all only: ei_v_set ei_type_set ei_vector_set ei_ev_set ei_errorcode_set
      ei_resvd1_set ei_zero)

lemma gp_pending_slot:
  "eventinj (vmcb vcpu_gp_pending) = 0x80000B0D"
  "ei_v (0x80000B0D :: u64)"
  "ei_type (0x80000B0D :: u64) = X86_EVENTTYPE_HW_EXCEPTION"
  "ei_vector (0x80000B0D :: u64) = 13"
  "hvm_combine_hw_exceptions env0 13 TRAP_gp_fault = TRAP_double_fault"
  by (simp_all add: vcpu_gp_pending_def vcpu0_def vmcb0_def ei_v_def ei_type_def ei_vector_def
      X86_EVENTTYPE_HW_EXCEPTION_def env0_def TRAP_gp_fault_def)

section \<open>What advancing the instruction pointer changes\<close>

lemma update_guest_eip_bad:
  "n = 0 \<or> n > 15 \<Longrightarrow> update_guest_eip env n v = ext Call_domain_crash v"
  by (simp add: update_guest_eip_def)

lemma update_guest_eip_good:
  assumes "n \<noteq> 0" "n \<le> 15"
  shows "user_regs (update_guest_eip env n v) =
           (user_regs v)\<lparr>eip := eip (user_regs v) + ucast n,
                          eflags := eflags (user_regs v) AND NOT X86_EFLAGS_RF\<rparr>"
    and "calls (update_guest_eip env n v) = calls v"
    and "interrupt_shadow (vmcb (update_guest_eip env n v)) = 0"
    and "eventinj (vmcb (update_guest_eip env n v)) =
           (if eflags (user_regs v) AND X86_EFLAGS_TF \<noteq> 0
            then eventinj (vmcb (svm_inject_exception env TRAP_debug HVM_DELIVER_NO_ERROR_CODE 0 v))
            else eventinj (vmcb v))"
proof -
  from assms have "\<not> 15 < n" by (simp add: not_less)
  with assms(1) show
    "user_regs (update_guest_eip env n v) =
           (user_regs v)\<lparr>eip := eip (user_regs v) + ucast n,
                          eflags := eflags (user_regs v) AND NOT X86_EFLAGS_RF\<rparr>"
    "calls (update_guest_eip env n v) = calls v"
    "interrupt_shadow (vmcb (update_guest_eip env n v)) = 0"
    "eventinj (vmcb (update_guest_eip env n v)) =
           (if eflags (user_regs v) AND X86_EFLAGS_TF \<noteq> 0
            then eventinj (vmcb (svm_inject_exception env TRAP_debug HVM_DELIVER_NO_ERROR_CODE 0 v))
            else eventinj (vmcb v))"
    by (simp_all add: update_guest_eip_def Let_def svm_inject_exception_frame tf_rf
        svm_inject_exception_eventinj)
qed

section \<open>The host-save-address register in the MSR intercepts\<close>

lemma hsave_distinct:
  "MSR_K8_VM_HSAVE_PA \<noteq> MSR_IA32_TSC" "MSR_K8_VM_HSAVE_PA \<noteq> MSR_IA32_APICBASE"
  "MSR_K8_VM_HSAVE_PA \<noteq> MSR_EFER" "MSR_K8_VM_HSAVE_PA \<noteq> MSR_IA32_MC4_MISC"
  "\<not> (MSR_F10_MC4_MISC1 \<le> MSR_K8_VM_HSAVE_PA \<and> MSR_K8_VM_HSAVE_PA \<le> MSR_F10_MC4_MISC3)"
  "MSR_K8_VM_HSAVE_PA \<noteq> MSR_IA32_EBC_FREQUENCY_ID"
  by (simp_all add: MSR_K8_VM_HSAVE_PA_def MSR_IA32_TSC_def MSR_IA32_APICBASE_def MSR_EFER_def
      MSR_IA32_MC4_MISC_def MSR_F10_MC4_MISC1_def MSR_F10_MC4_MISC3_def
      MSR_IA32_EBC_FREQUENCY_ID_def)

lemma hsave_read:
  assumes "ucast (ecx (user_regs v)) = MSR_K8_VM_HSAVE_PA"
  shows "svm_msr_read_intercept env v = msr_gpf env v"
  using assms by (simp add: svm_msr_read_intercept_def Let_def hsave_distinct)

lemma hsave_write:
  assumes "ucast (ecx (user_regs v)) = MSR_K8_VM_HSAVE_PA"
  shows "svm_msr_write_intercept env v = msr_gpf env v"
  using assms by (simp add: svm_msr_write_intercept_def Let_def hsave_distinct)

lemma hsave_access:
  assumes "ucast (ecx (user_regs v)) = MSR_K8_VM_HSAVE_PA"
  shows "svm_do_msr_access env v = svm_inject_exception env TRAP_gp_fault 0 0 v"
  using assms
  by (simp add: svm_do_msr_access_def hsave_read hsave_write msr_gpf_def
      X86EMUL_OKAY_def X86EMUL_EXCEPTION_def)

section \<open>Control register 0 without hardware-assisted paging\<close>

text \<open>
  C1. When the domain of the vcpu does not use hardware-assisted paging,
  svm_update_guest_cr with cr = 0 returns, and the CR0 it writes into the control block
  has the paging-enable bit and the write-protect bit set, whatever the canonical CR0,
  the control block and the scheduling state are.
\<close>

theorem svm_update_guest_cr0_shadow:
  assumes "\<not> paging_mode_hap v"
  shows "\<exists>v'. svm_update_guest_cr env v 0 = Some v' \<and>
           cr0 (vmcb v') AND X86_CR0_PG = X86_CR0_PG \<and>
           cr0 (vmcb v') AND X86_CR0_WP = X86_CR0_WP"
  using assms
  by (simp add: svm_update_guest_cr_def svm_fpu_enter_def ext_def Let_def split_beta
      or_and_absorb)

theorem svm_update_guest_cr0_shadow_witness:
  "\<not> paging_mode_hap vcpu0 \<and> guest_cr vcpu0 0 = 0 \<and>
   (\<exists>v'. svm_update_guest_cr env0 vcpu0 0 = Some v' \<and>
           cr0 (vmcb v') AND X86_CR0_PG = X86_CR0_PG \<and>
           cr0 (vmcb v') AND X86_CR0_WP = X86_CR0_WP)"
proof -
  have h: "\<not> paging_mode_hap vcpu0" by (simp add: vcpu0_def)
  have g: "guest_cr vcpu0 0 = 0" by (simp add: vcpu0_def)
  show ?thesis using h g svm_update_guest_cr0_shadow [OF h, of env0] by simp
qed

section \<open>Escalation to a double fault\<close>

text \<open>
  C2, as stated, fails: after an injection that escalates to a double fault the slot does
  deliver an error code. With a general-protection fault pending, a second
  general-protection fault with error code 0x10 leaves vector 8 in the slot with the
  error-code bit ev set.
\<close>

theorem svm_inject_exception_counterexample:
  "ei_v (eventinj (vmcb vcpu_gp_pending)) \<and>
   ei_type (eventinj (vmcb vcpu_gp_pending)) = X86_EVENTTYPE_HW_EXCEPTION \<and>
   hvm_combine_hw_exceptions env0 (ei_vector (eventinj (vmcb vcpu_gp_pending))) TRAP_gp_fault
     = TRAP_double_fault \<and>
   ei_vector (eventinj (vmcb (svm_inject_exception env0 TRAP_gp_fault 0x10 0 vcpu_gp_pending))) = 8 \<and>
   ei_ev (eventinj (vmcb (svm_inject_exception env0 TRAP_gp_fault 0x10 0 vcpu_gp_pending)))"
  by (simp add: svm_inject_exception_slot gp_pending_slot TRAP_double_fault_def
      HVM_DELIVER_NO_ERROR_CODE_def)

text \<open>
  C2, amended. If the slot holds a valid hardware exception and the escalation table
  turns the pending vector and the new one into a double fault, then after
  svm_inject_exception the slot holds one valid hardware exception with vector 8, whose
  error code is 0 and is delivered (ev is set): the error code of the caller is dropped
  and replaced by zero. The reserved field is zero, and the fault address is written
  neither to the canonical CR2 nor to the control block.
\<close>

theorem svm_inject_exception_double_fault:
  assumes "ei_v (eventinj (vmcb v))"
    and "ei_type (eventinj (vmcb v)) = X86_EVENTTYPE_HW_EXCEPTION"
    and "hvm_combine_hw_exceptions env (ei_vector (eventinj (vmcb v))) trapnr = TRAP_double_fault"
  shows "let v' = svm_inject_exception env trapnr errcode cr2v v; e' = eventinj (vmcb v')
         in ei_v e' \<and> ei_type e' = X86_EVENTTYPE_HW_EXCEPTION \<and> ei_vector e' = 8 \<and>
            ei_ev e' \<and> ei_errorcode e' = 0 \<and> ei_resvd1 e' = 0 \<and>
            guest_cr v' = guest_cr v \<and> cr2 (vmcb v') = cr2 (vmcb v)"
proof -
  have ne: "HVM_DELIVER_NO_ERROR_CODE \<noteq> 0" "TRAP_double_fault \<noteq> TRAP_page_fault"
    "TRAP_double_fault \<noteq> TRAP_debug" "(ucast TRAP_double_fault :: u8) = 8"
    by (simp_all add: HVM_DELIVER_NO_ERROR_CODE_def TRAP_double_fault_def TRAP_page_fault_def
        TRAP_debug_def)
  have a: "guest_cr (svm_inject_exception env trapnr errcode cr2v v) = guest_cr v"
    "cr2 (vmcb (svm_inject_exception env trapnr errcode cr2v v)) = cr2 (vmcb v)"
    using assms ne by (simp_all add: svm_inject_exception_def Let_def)
  show ?thesis
    using assms ne by (simp add: Let_def svm_inject_exception_slot a)
qed

theorem svm_inject_exception_double_fault_witness:
  "ei_v (eventinj (vmcb vcpu_gp_pending)) \<and>
   ei_type (eventinj (vmcb vcpu_gp_pending)) = X86_EVENTTYPE_HW_EXCEPTION \<and>
   hvm_combine_hw_exceptions env0 (ei_vector (eventinj (vmcb vcpu_gp_pending))) TRAP_gp_fault
     = TRAP_double_fault \<and>
   ei_errorcode (eventinj (vmcb (svm_inject_exception env0 TRAP_gp_fault 0x10 0 vcpu_gp_pending))) = 0 \<and>
   ei_resvd1 (eventinj (vmcb (svm_inject_exception env0 TRAP_gp_fault 0x10 0 vcpu_gp_pending))) = 0"
proof -
  have h1: "ei_v (eventinj (vmcb vcpu_gp_pending))"
    by (simp add: gp_pending_slot)
  have h2: "ei_type (eventinj (vmcb vcpu_gp_pending)) = X86_EVENTTYPE_HW_EXCEPTION"
    by (simp add: gp_pending_slot)
  have h3: "hvm_combine_hw_exceptions env0 (ei_vector (eventinj (vmcb vcpu_gp_pending)))
      TRAP_gp_fault = TRAP_double_fault"
    by (simp add: gp_pending_slot)
  show ?thesis
    using h1 h2 h3
      svm_inject_exception_double_fault [OF h1 h2 h3, where errcode = "0x10" and cr2v = 0]
    by (simp add: Let_def)
qed

section \<open>Restoring an invalid pending event\<close>

text \<open>
  C3. If the saved context has pending_valid set and its pending type is 1 or above 6, or
  its reserved field is not zero, then svm_vmcb_restore returns -EINVAL and the vcpu,
  with its control block (the injection slot and the control registers among its
  fields), is the one it was given.
\<close>

theorem svm_vmcb_restore_rejects:
  assumes "pending_valid c"
    and "pending_type c = 1 \<or> pending_type c > 6 \<or> pending_reserved c \<noteq> 0"
  shows "svm_vmcb_restore env v c = Some (- EINVAL, v)"
  using assms by (simp add: svm_vmcb_restore_def)

theorem svm_vmcb_restore_rejects_witness:
  "pending_valid ctxt_type1 \<and> pending_type ctxt_type1 = 1 \<and>
   svm_vmcb_restore env0 vcpu0 ctxt_type1 = Some (- EINVAL, vcpu0)"
proof -
  have h1: "pending_valid ctxt_type1"
    by (simp add: pending_valid_def ctxt_type1_def ctxt0_def)
  have h2: "pending_type ctxt_type1 = 1"
    by (simp add: pending_type_def ctxt_type1_def ctxt0_def)
  show ?thesis using h1 h2 svm_vmcb_restore_rejects [OF h1, of env0 vcpu0] by simp
qed

section \<open>Control register 4\<close>

text \<open>
  C4, as stated, fails. Under hardware-assisted paging, with the host mask VMXE | PAE and
  a canonical CR4 of PAE alone, the hardware CR4 is 0x2020: it is not the canonical value
  ANDed with the mask (0x20), and its PAE bit is set.
\<close>

theorem svm_update_guest_cr4_counterexample:
  "paging_mode_hap vcpu_hap_pae \<and>
   guest_cr vcpu_hap_pae 4 AND HVM_CR4_HOST_MASK env0 = 0x20 \<and>
   map_option (\<lambda>v'. cr4 (vmcb v')) (svm_update_guest_cr env0 vcpu_hap_pae 4) = Some 0x2020 \<and>
   (0x2020 :: u64) AND X86_CR4_PAE \<noteq> 0"
  by (simp add: vcpu_hap_pae_def vcpu0_def env0_def svm_update_guest_cr_def Let_def
      X86_CR4_PAE_def X86_CR4_VMXE_def)

text \<open>
  C4, amended. svm_update_guest_cr with cr = 4 returns, and the hardware CR4 is the
  canonical value ORed with the host mask, from which PAE is first removed under
  hardware-assisted paging. So every bit of the canonical value is set in the hardware
  CR4; under hardware-assisted paging the PAE bit of the hardware CR4 is the PAE bit of
  the canonical value, and otherwise every bit of the host mask is set.
\<close>

theorem svm_update_guest_cr4_or_mask:
  "\<exists>v'. svm_update_guest_cr env v 4 = Some v' \<and>
      cr4 (vmcb v') =
        (if paging_mode_hap v then HVM_CR4_HOST_MASK env AND NOT X86_CR4_PAE
         else HVM_CR4_HOST_MASK env) OR guest_cr v 4 \<and>
      cr4 (vmcb v') AND guest_cr v 4 = guest_cr v 4 \<and>
      (if paging_mode_hap v
       then cr4 (vmcb v') AND X86_CR4_PAE = guest_cr v 4 AND X86_CR4_PAE
       else cr4 (vmcb v') AND HVM_CR4_HOST_MASK env = HVM_CR4_HOST_MASK env)"
proof -
  have a: "(m OR g) AND g = g" for m g :: u64
    by (rule bit_word_eqI) (auto simp add: bit_simps)
  have b: "(m AND NOT p OR g) AND p = g AND p" for m g p :: u64
    by (rule bit_word_eqI) (auto simp add: bit_simps)
  have c: "(m OR g) AND m = m" for m g :: u64
    by (rule bit_word_eqI) (auto simp add: bit_simps)
  show ?thesis
    by (simp add: svm_update_guest_cr_def Let_def a b c)
qed

theorem svm_update_guest_cr4_or_mask_witness:
  "paging_mode_hap vcpu_hap_pae \<and>
   (\<exists>v'. svm_update_guest_cr env0 vcpu_hap_pae 4 = Some v' \<and>
      cr4 (vmcb v') AND X86_CR4_PAE = X86_CR4_PAE)"
proof -
  have h: "paging_mode_hap vcpu_hap_pae" "guest_cr vcpu_hap_pae 4 = X86_CR4_PAE"
    by (simp_all add: vcpu_hap_pae_def vcpu0_def)
  show ?thesis
    using h svm_update_guest_cr4_or_mask [of env0 vcpu_hap_pae] by auto
qed

section \<open>The hardware copy of EFER\<close>

text \<open>
  C5, as stated, fails: when the canonical EFER has the long-mode-active bit set, the
  hardware copy has the long-mode-enable bit set. A canonical value of LMA alone gives
  0x1500 = SVME | LMA | LME.
\<close>

theorem svm_update_guest_efer_counterexample:
  "guest_efer vcpu_lma = EFER_LMA \<and>
   efer (vmcb (svm_update_guest_efer vcpu_lma)) = 0x1500 \<and>
   (0x1500 :: u64) AND EFER_LME \<noteq> 0"
  by (simp add: vcpu_lma_def vcpu0_def svm_update_guest_efer_def Let_def
      EFER_LMA_def EFER_SVME_def EFER_LME_def)

text \<open>
  C5, amended. After svm_update_guest_efer the hardware copy of EFER has the
  virtualization-enable bit set, has the long-mode-enable bit set exactly when the
  canonical value has the long-mode-active bit set, and agrees with the canonical value
  on every other bit.
\<close>

theorem svm_update_guest_efer_bits:
  "efer (vmcb (svm_update_guest_efer v)) AND EFER_SVME = EFER_SVME \<and>
   (efer (vmcb (svm_update_guest_efer v)) AND EFER_LME \<noteq> 0) = (guest_efer v AND EFER_LMA \<noteq> 0) \<and>
   efer (vmcb (svm_update_guest_efer v)) AND NOT (EFER_SVME OR EFER_LME)
     = guest_efer v AND NOT (EFER_SVME OR EFER_LME)"
proof -
  have e: "efer (vmcb (svm_update_guest_efer v)) =
      (if ((guest_efer v OR push_bit 12 1) AND NOT (push_bit 8 1)) AND push_bit 10 1 \<noteq> 0
       then (guest_efer v OR push_bit 12 1) AND NOT (push_bit 8 1) OR push_bit 8 1
       else (guest_efer v OR push_bit 12 1) AND NOT (push_bit 8 1))"
    by (simp add: svm_update_guest_efer_def Let_def EFER_SVME_def EFER_LME_def EFER_LMA_def)
  have k: "EFER_SVME = push_bit 12 1" "EFER_LME = push_bit 8 1" "EFER_LMA = push_bit 10 1"
    by (simp_all add: EFER_SVME_def EFER_LME_def EFER_LMA_def)
  have p: "(12::nat) \<noteq> 8" "(10::nat) \<noteq> 8" "(10::nat) \<noteq> 12" "8 < LENGTH(64)"
    by simp_all
  note g = force_clear_mirror [OF p, of "guest_efer v"]
  show ?thesis
    unfolding e k by (intro conjI; rule g)
qed

theorem svm_update_guest_efer_bits_witness:
  "guest_efer vcpu0 AND EFER_LMA = 0 \<and>
   efer (vmcb (svm_update_guest_efer vcpu0)) AND EFER_SVME = EFER_SVME \<and>
   efer (vmcb (svm_update_guest_efer vcpu0)) AND EFER_LME = 0"
proof -
  have h: "guest_efer vcpu0 AND EFER_LMA = 0" by (simp add: vcpu0_def)
  show ?thesis using h svm_update_guest_efer_bits [of vcpu0] by simp
qed

section \<open>Saving the pending event\<close>

text \<open>
  C6, as stated, fails: svm_vmcb_save records the event but does not clear the slot. With
  a valid general-protection fault in the slot, which is to be redelivered, the saved
  pending_event is the event word and the slot is still valid afterwards.
\<close>

theorem svm_vmcb_save_counterexample:
  "ei_v (eventinj (vmcb vcpu_gp_pending)) \<and>
   hvm_event_needs_reinjection env0 (ei_type (eventinj (vmcb vcpu_gp_pending)))
     (ei_vector (eventinj (vmcb vcpu_gp_pending))) \<and>
   pending_event (snd (snd (svm_vmcb_save env0 vcpu_gp_pending ctxt0))) = 0x80000B0D \<and>
   ei_v (eventinj (vmcb (fst (snd (svm_vmcb_save env0 vcpu_gp_pending ctxt0)))))"
  by (simp add: svm_vmcb_save_def Let_def vcpu_gp_pending_def vcpu0_def vmcb0_def env0_def
      ctxt0_def ei_v_def ei_type_def ei_vector_def)

text \<open>
  C6, amended. svm_vmcb_save returns 1 and leaves the vcpu, its control block and the
  injection slot as they were. If the slot holds a valid event that is to be redelivered,
  the saved pending_event is the low half of the event word, so that its valid bit is
  set and its vector, type, error-code bit and reserved field are those of the slot, and
  the saved error_code is the error code of the slot; otherwise the saved pending_event
  and error_code are zero.
\<close>

theorem svm_vmcb_save_leaves_slot:
  "let e = eventinj (vmcb v); r = svm_vmcb_save env v c; c' = snd (snd r)
   in fst r = 1 \<and> fst (snd r) = v \<and>
      (if ei_v e \<and> hvm_event_needs_reinjection env (ei_type e) (ei_vector e)
       then pending_event c' = ucast e \<and> pending_valid c' \<and> pending_vector c' = ei_vector e \<and>
            pending_type c' = ei_type e \<and> pending_error_valid c' = ei_ev e \<and>
            pending_reserved c' = ei_resvd1 e \<and> error_code c' = ei_errorcode e
       else pending_event c' = 0 \<and> error_code c' = 0)"
  by (simp add: svm_vmcb_save_def Let_def pending_of_ucast)

theorem svm_vmcb_save_leaves_slot_witness:
  "ei_v (eventinj (vmcb vcpu_gp_pending)) \<and>
   hvm_event_needs_reinjection env0 (ei_type (eventinj (vmcb vcpu_gp_pending)))
     (ei_vector (eventinj (vmcb vcpu_gp_pending))) \<and>
   fst (snd (svm_vmcb_save env0 vcpu_gp_pending ctxt0)) = vcpu_gp_pending \<and>
   pending_vector (snd (snd (svm_vmcb_save env0 vcpu_gp_pending ctxt0))) = 13 \<and>
   pending_valid (snd (snd (svm_vmcb_save env0 vcpu_gp_pending ctxt0)))"
proof -
  have h1: "ei_v (eventinj (vmcb vcpu_gp_pending))"
    by (simp add: gp_pending_slot)
  have h2: "hvm_event_needs_reinjection env0 (ei_type (eventinj (vmcb vcpu_gp_pending)))
     (ei_vector (eventinj (vmcb vcpu_gp_pending)))"
    by (simp add: gp_pending_slot env0_def X86_EVENTTYPE_HW_EXCEPTION_def)
  show ?thesis
    using h1 h2 svm_vmcb_save_leaves_slot [of vcpu_gp_pending env0 ctxt0]
    by (simp add: Let_def gp_pending_slot)
qed

section \<open>Halt\<close>

text \<open>
  C7. On a halt exit whose instruction length n decodes (n is not 0, and at most 15 as an
  instruction length is), svm_vmexit_do_hlt first advances the instruction pointer by n.
  Then, on the state after the advance, if the injection slot holds a valid event, or an
  interrupt source is pending and not blocked, hvm_hlt is not called; if neither holds,
  hvm_hlt is called, once, with the flags register. hvm_hlt is the call that yields the
  core until a wake condition occurs.
\<close>

theorem svm_vmexit_do_hlt_effect:
  assumes "get_instruction_length env v INSTR_HLT = n" and "n \<noteq> 0" and "n \<le> 15"
  shows "let v1 = update_guest_eip env n v;
             intack = hvm_vcpu_has_pending_irq env v;
             v' = svm_vmexit_do_hlt env v
         in eip (user_regs v') = eip (user_regs v) + ucast n \<and>
            eventinj (vmcb v') = eventinj (vmcb v1) \<and>
            (if ei_v (eventinj (vmcb v')) \<or>
                (source intack \<noteq> hvm_intsrc_none \<and> \<not> hvm_interrupt_blocked env v1 intack)
             then calls v' = calls v
             else calls v' = calls v @ [Call_hvm_hlt (eflags (user_regs v'))])"
  using assms(1,2)
  by (simp add: svm_vmexit_do_hlt_def Let_def ext_def update_guest_eip_good [OF assms(2,3)])

theorem svm_vmexit_do_hlt_effect_witness:
  "get_instruction_length env0 vcpu0 INSTR_HLT = 1 \<and>
   eip (user_regs vcpu0) = 0x1000 \<and>
   eip (user_regs (svm_vmexit_do_hlt env0 vcpu0)) = 0x1001 \<and>
   calls (svm_vmexit_do_hlt env0 vcpu0) = [Call_hvm_hlt (eflags (user_regs (svm_vmexit_do_hlt env0 vcpu0)))]"
proof -
  have h1: "get_instruction_length env0 vcpu0 INSTR_HLT = 1" by (simp add: env0_def)
  have h2: "(1 :: u32) \<noteq> 0" "(1 :: u32) \<le> 15" by simp_all
  have s: "eflags (user_regs vcpu0) AND X86_EFLAGS_TF = 0" "eventinj (vmcb vcpu0) = 0"
    "eip (user_regs vcpu0) = 0x1000" "calls vcpu0 = []"
    "source (hvm_vcpu_has_pending_irq env0 vcpu0) = hvm_intsrc_none"
    by (simp_all add: vcpu0_def regs0_def vmcb0_def env0_def X86_EFLAGS_TF_def)
  have e: "eventinj (vmcb (update_guest_eip env0 1 vcpu0)) = 0"
    by (simp add: update_guest_eip_good [OF h2] s)
  show ?thesis
    using h1 s svm_vmexit_do_hlt_effect [OF h1 h2]
    by (simp add: Let_def e ei_zero)
qed

section \<open>The host-save-address register\<close>

text \<open>
  C8. When the guest names MSR_K8_VM_HSAVE_PA in ecx, with any value in eax and edx, the
  read intercept and the write intercept both call svm_inject_exception for a
  general-protection fault with error code 0 and return X86EMUL_EXCEPTION, which is not
  X86EMUL_OKAY. svm_do_msr_access then leaves the register frame as it was (the
  instruction pointer is not advanced, eax and edx are not loaded) and makes no call that
  reads or writes a register for the guest. Afterwards the slot holds a valid hardware
  exception that delivers error code 0; its vector is 13 unless a hardware exception was
  already pending, in which case it is the one the escalation table gives for the pending
  vector and 13.
\<close>

theorem hsave_pa_access_faults:
  assumes "ucast (ecx (user_regs v)) = MSR_K8_VM_HSAVE_PA"
  shows "let g = svm_inject_exception env TRAP_gp_fault 0 0 v;
             e = eventinj (vmcb v);
             v' = svm_do_msr_access env v;
             e' = eventinj (vmcb v')
         in svm_msr_read_intercept env v = (X86EMUL_EXCEPTION, g) \<and>
            svm_msr_write_intercept env v = (X86EMUL_EXCEPTION, g) \<and>
            X86EMUL_EXCEPTION \<noteq> X86EMUL_OKAY \<and>
            v' = g \<and>
            user_regs v' = user_regs v \<and>
            calls v' = calls v \<and>
            ei_v e' \<and> ei_type e' = X86_EVENTTYPE_HW_EXCEPTION \<and> ei_ev e' \<and>
            ei_errorcode e' = 0 \<and>
            ei_vector e' = ucast (if ei_v e \<and> ei_type e = X86_EVENTTYPE_HW_EXCEPTION
                                  then hvm_combine_hw_exceptions env (ei_vector e) TRAP_gp_fault
                                  else TRAP_gp_fault)"
proof -
  have ne: "HVM_DELIVER_NO_ERROR_CODE \<noteq> 0"
    by (simp add: HVM_DELIVER_NO_ERROR_CODE_def)
  show ?thesis
    using ne
    by (simp add: Let_def hsave_read [OF assms] hsave_write [OF assms] hsave_access [OF assms]
        msr_gpf_def svm_inject_exception_frame svm_inject_exception_slot
        X86EMUL_OKAY_def X86EMUL_EXCEPTION_def)
qed

theorem hsave_pa_access_faults_witness:
  "ucast (ecx (user_regs vcpu_hsave)) = MSR_K8_VM_HSAVE_PA \<and>
   fst (svm_msr_read_intercept env0 vcpu_hsave) = X86EMUL_EXCEPTION \<and>
   fst (svm_msr_write_intercept env0 vcpu_hsave) = X86EMUL_EXCEPTION \<and>
   user_regs (svm_do_msr_access env0 vcpu_hsave) = user_regs vcpu_hsave \<and>
   calls (svm_do_msr_access env0 vcpu_hsave) = [] \<and>
   ei_vector (eventinj (vmcb (svm_do_msr_access env0 vcpu_hsave))) = 13"
proof -
  have h: "ucast (ecx (user_regs vcpu_hsave)) = MSR_K8_VM_HSAVE_PA"
    by (simp add: vcpu_hsave_def vcpu0_def regs0_def MSR_K8_VM_HSAVE_PA_def)
  have s: "calls vcpu_hsave = []" "\<not> ei_v (eventinj (vmcb vcpu_hsave))"
    "(ucast TRAP_gp_fault :: u8) = 13"
    by (simp_all add: vcpu_hsave_def vcpu0_def vmcb0_def ei_zero TRAP_gp_fault_def)
  show ?thesis
    using h s hsave_pa_access_faults [OF h, of env0]
    by (auto simp add: Let_def)
qed

section \<open>Advancing the instruction pointer\<close>

text \<open>
  C9. update_guest_eip with an instruction length of 0 or above 15 leaves the register
  frame (the instruction pointer in it) and the control block as they were and crashes
  the domain. With any other length n it does not crash the domain; the instruction
  pointer is advanced by n, the resume flag is cleared in the flags, the interrupt shadow
  is cleared, and if the trap flag is set svm_inject_exception is called for the debug
  vector without an error code, so that the slot holds a valid hardware exception (of
  vector 1 unless a hardware exception was already pending, when the escalation table
  decides); if the trap flag is clear the slot is as it was.
\<close>

theorem update_guest_eip_effect:
  "let v' = update_guest_eip env n v; e = eventinj (vmcb v); e' = eventinj (vmcb v') in
   if n = 0 \<or> n > 15
   then user_regs v' = user_regs v \<and> vmcb v' = vmcb v \<and> calls v' = calls v @ [Call_domain_crash]
   else eip (user_regs v') = eip (user_regs v) + ucast n \<and>
        eflags (user_regs v') = eflags (user_regs v) AND NOT X86_EFLAGS_RF \<and>
        eflags (user_regs v') AND X86_EFLAGS_RF = 0 \<and>
        interrupt_shadow (vmcb v') = 0 \<and>
        calls v' = calls v \<and>
        (if eflags (user_regs v) AND X86_EFLAGS_TF \<noteq> 0
         then e' = eventinj (vmcb (svm_inject_exception env TRAP_debug HVM_DELIVER_NO_ERROR_CODE 0 v)) \<and>
              ei_v e' \<and> ei_type e' = X86_EVENTTYPE_HW_EXCEPTION \<and>
              ei_ev e' = (ei_v e \<and> ei_type e = X86_EVENTTYPE_HW_EXCEPTION \<and>
                 hvm_combine_hw_exceptions env (ei_vector e) TRAP_debug = TRAP_double_fault) \<and>
              ei_vector e' = ucast (if ei_v e \<and> ei_type e = X86_EVENTTYPE_HW_EXCEPTION
                                    then hvm_combine_hw_exceptions env (ei_vector e) TRAP_debug
                                    else TRAP_debug)
         else e' = e)"
proof (cases "n = 0 \<or> n > 15")
  case True
  then show ?thesis
    by (simp add: update_guest_eip_bad ext_def Let_def)
next
  case False
  then have n: "n \<noteq> 0" "n \<le> 15" by (simp_all add: not_less)
  have ne: "HVM_DELIVER_NO_ERROR_CODE \<noteq> 0" "TRAP_debug \<noteq> TRAP_double_fault"
    by (simp_all add: HVM_DELIVER_NO_ERROR_CODE_def TRAP_debug_def TRAP_double_fault_def)
  have rf: "(x AND NOT X86_EFLAGS_RF) AND X86_EFLAGS_RF = 0" for x :: u64
    by (rule bit_word_eqI) (auto simp add: bit_simps)
  show ?thesis
    using False ne
    by (auto simp add: Let_def update_guest_eip_good [OF n] svm_inject_exception_slot rf)
qed

theorem update_guest_eip_effect_witness:
  "eflags (user_regs vcpu_tf) AND X86_EFLAGS_TF \<noteq> 0 \<and>
   eip (user_regs (update_guest_eip env0 2 vcpu_tf)) = 0x1002 \<and>
   ei_v (eventinj (vmcb (update_guest_eip env0 2 vcpu_tf))) \<and>
   ei_vector (eventinj (vmcb (update_guest_eip env0 2 vcpu_tf))) = 1 \<and>
   calls (update_guest_eip env0 16 vcpu_tf) = [Call_domain_crash] \<and>
   user_regs (update_guest_eip env0 16 vcpu_tf) = user_regs vcpu_tf"
proof -
  have s: "eflags (user_regs vcpu_tf) AND X86_EFLAGS_TF \<noteq> 0" "eip (user_regs vcpu_tf) = 0x1000"
    "\<not> ei_v (eventinj (vmcb vcpu_tf))" "calls vcpu_tf = []" "(ucast TRAP_debug :: u8) = 1"
    by (simp_all add: vcpu_tf_def vcpu0_def regs0_def vmcb0_def ei_zero X86_EFLAGS_TF_def
        TRAP_debug_def)
  show ?thesis
    using s update_guest_eip_effect [of env0 2 vcpu_tf]
      update_guest_eip_effect [of env0 16 vcpu_tf]
    by (auto simp add: Let_def)
qed

section \<open>The lazy debug-register discipline\<close>

text \<open>
  C10. svm_save_dr and restore_debug_registers keep the invariant that the dirty flag is
  nonzero exactly when dr_intercepts is 0. svm_save_dr changes nothing when the flag is
  clear, and otherwise clears the flag and sets every intercept bit;
  restore_debug_registers changes nothing when the flag is set, and otherwise sets the
  flag and clears every intercept bit.
\<close>

theorem dr_ops_keep_invariant:
  assumes "dr_inv v"
  shows "dr_inv (svm_save_dr v) \<and> dr_inv (restore_debug_registers v) \<and>
    (if flag_dr_dirty v = 0 then svm_save_dr v = v
     else flag_dr_dirty (svm_save_dr v) = 0 \<and> dr_intercepts (vmcb (svm_save_dr v)) = NOT 0) \<and>
    (if flag_dr_dirty v \<noteq> 0 then restore_debug_registers v = v
     else flag_dr_dirty (restore_debug_registers v) = 1 \<and>
          dr_intercepts (vmcb (restore_debug_registers v)) = 0)"
  using assms by (auto simp add: dr_inv_def svm_save_dr_def restore_debug_registers_def Let_def)

theorem dr_ops_keep_invariant_witness:
  "dr_inv vcpu0 \<and> dr_inv (svm_save_dr vcpu0) \<and> dr_inv (restore_debug_registers vcpu0) \<and>
   svm_save_dr vcpu0 = vcpu0 \<and> flag_dr_dirty (restore_debug_registers vcpu0) = 1 \<and>
   dr_intercepts (vmcb (restore_debug_registers vcpu0)) = 0"
proof -
  have h: "dr_inv vcpu0" by (simp add: dr_inv_def vcpu0_def vmcb0_def)
  have f: "flag_dr_dirty vcpu0 = 0" by (simp add: vcpu0_def)
  show ?thesis using h f dr_ops_keep_invariant [OF h] by simp
qed

end
